theory Spec2Isabelle
  imports Complex_Main
begin

section \<open>Data model (the type declarations at the head of src/unnamed/part_001)\<close>

text \<open>
  The interfaces of the application become records and its enums datatypes. JavaScript
  numbers that hold clock seconds, scores and counters are whole numbers throughout the
  game tracker; they are modelled as \<open>int\<close>. Identifiers are strings. Since several
  interfaces have fields of the same name, the field names carry a short prefix.
\<close>

record Player =
  pl_id :: string
  pl_name :: string
  jerseyNumber :: string
  position :: string
  userId :: "string option"

record Team =
  tm_id :: string
  tm_name :: string
  roster :: "Player list"

datatype StatType =
  GOAL | ASSIST | SHOT | SAVE | GROUND_BALL | TURNOVER | CAUSED_TURNOVER
  | FACEOFF_WIN | FACEOFF_LOSS

record Stat =
  st_id :: string
  st_playerId :: string
  st_teamId :: string
  st_type :: StatType
  timestamp :: int
  assistingPlayerId :: "string option"

datatype PenaltyType =
  SLASHING | TRIPPING | CROSS_CHECK | UNSPORTSMANLIKE_CONDUCT | ILLEGAL_BODY_CHECK
  | HOLDING | INTERFERENCE | ILLEGAL_PROCEDURE | PUSHING | OFFSIDES | WARDING
  | ILLEGAL_STICK

record Penalty =
  pn_id :: string
  pn_playerId :: string
  pn_teamId :: string
  pn_type :: PenaltyType
  duration :: int
  startTime :: int
  releaseTime :: int

datatype GameStatus = Scheduled | Live | Finished

record Score =
  home :: int
  away :: int

record Game =
  gm_id :: string
  homeTeam :: Team
  awayTeam :: Team
  scheduledTime :: string
  status :: GameStatus
  score :: Score
  stats :: "Stat list"
  penalties :: "Penalty list"
  currentPeriod :: int
  gameClock :: int
  aiSummary :: "string option"

datatype Role = ADMIN | COACH | PARENT | PLAYER | FAN

section \<open>Penalty box (PenaltyBox in src/unnamed/part_001)\<close>

text \<open>
  \<^verbatim>\<open>penalties.filter(p => clock > p.releaseTime).sort((a,b) => a.releaseTime - b.releaseTime)\<close>
  The sort of JavaScript arrays is stable; \<open>sort_key\<close> is the stable insertion sort.
\<close>

definition activePenalties :: "Penalty list \<Rightarrow> int \<Rightarrow> Penalty list" where
  "activePenalties ps c = sort_key releaseTime (filter (\<lambda>p. c > releaseTime p) ps)"

text \<open>The penalty of the specification's example: 60 seconds, committed at clock 700.\<close>

definition penalty60 :: Penalty where
  "penalty60 = \<lparr>pn_id = ''penalty_1'', pn_playerId = ''player_1'', pn_teamId = ''team_1'',
     pn_type = SLASHING, duration = 60, startTime = 700, releaseTime = 700 - 60\<rparr>"

section \<open>Creating a game (handleAddGame in src/services/storageService.ts)\<close>

text \<open>
  A JavaScript condition on an optional string holds when the string is there and is
  not empty.
\<close>

definition truthy :: "string option \<Rightarrow> bool" where
  "truthy v = (case v of None \<Rightarrow> False | Some s \<Rightarrow> s \<noteq> [])"

text \<open>The object literal \<open>newGame\<close> of \<open>handleAddGame\<close>.\<close>

definition newGame :: "string \<Rightarrow> Team \<Rightarrow> Team \<Rightarrow> string \<Rightarrow> Game" where
  "newGame now homeT awayT sched =
     \<lparr>gm_id = ''game_'' @ now, homeTeam = homeT, awayTeam = awayT, scheduledTime = sched,
      status = Scheduled, score = \<lparr>home = 0, away = 0\<rparr>, stats = [], penalties = [],
      currentPeriod = 1, gameClock = 720, aiSummary = None\<rparr>"

text \<open>
  \<open>handleAddGame\<close> looks both teams up (creating the opponent from a name when no id is
  given) and makes the game when both exist. \<open>now\<close> is the text of \<open>Date.now()\<close>. The
  result is the team list and the new game, if any.
\<close>

definition handleAddGame ::
  "Team list \<Rightarrow> string \<Rightarrow> string option \<times> string option \<Rightarrow> string \<Rightarrow> string
     \<Rightarrow> Team list \<times> Game option" where
  "handleAddGame teams homeTeamId awayTeamInfo sched now =
     (let homeT = find (\<lambda>t. tm_id t = homeTeamId) teams;
          newOpponentTeam = (\<lambda>nm. \<lparr>tm_id = ''team_'' @ now, tm_name = nm, roster = []\<rparr>);
          (teams', awayT) =
            (if truthy (fst awayTeamInfo)
             then (teams, find (\<lambda>t. Some (tm_id t) = fst awayTeamInfo) teams)
             else (case snd awayTeamInfo of
                     None \<Rightarrow> (teams, None)
                   | Some nm \<Rightarrow>
                       if nm \<noteq> []
                       then (teams @ [newOpponentTeam nm], Some (newOpponentTeam nm))
                       else (teams, None)))
      in case (homeT, awayT) of
           (Some h, Some a) \<Rightarrow> (teams', Some (newGame now h a sched))
         | _ \<Rightarrow> (teams', None))"

section \<open>Recording stats, scores and penalties (GameTracker in src/unnamed/part_001)\<close>

text \<open>
  The handlers close over the \<open>game\<close> prop and the \<open>clock\<close> state of the component
  and hand the new game to \<open>onUpdateGame\<close>; here they take both as arguments and
  return the new game. \<open>now\<close> is the text of \<open>Date.now()\<close>.
\<close>

definition handleStatAdd ::
  "Game \<Rightarrow> int \<Rightarrow> string \<Rightarrow> Player \<Rightarrow> string \<Rightarrow> StatType \<Rightarrow> string option \<Rightarrow> Game" where
  "handleStatAdd g clk now player teamId ty assist =
     (let newStat = \<lparr>st_id = ''stat_'' @ now, st_playerId = pl_id player, st_teamId = teamId,
                      st_type = ty, timestamp = clk, assistingPlayerId = assist\<rparr>;
          newScore = (if ty = GOAL
                      then (if teamId = tm_id (homeTeam g)
                            then (score g)\<lparr>home := home (score g) + 1\<rparr>
                            else (score g)\<lparr>away := away (score g) + 1\<rparr>)
                      else score g)
      in g\<lparr>stats := stats g @ [newStat], score := newScore\<rparr>)"

datatype TeamSide = HomeSide | AwaySide

definition handleManualScoreChange :: "Game \<Rightarrow> TeamSide \<Rightarrow> int \<Rightarrow> Game" where
  "handleManualScoreChange g teamType delta =
     (let newScore = (case teamType of
                        HomeSide \<Rightarrow> (score g)\<lparr>home := max 0 (home (score g) + delta)\<rparr>
                      | AwaySide \<Rightarrow> (score g)\<lparr>away := max 0 (away (score g) + delta)\<rparr>)
      in g\<lparr>score := newScore\<rparr>)"

text \<open>
  \<open>handleAddPenalty\<close> returns at once when no player is selected. The \<open>penalties\<close>
  field is an array by the \<open>Game\<close> interface, and \<open>game.penalties || []\<close> is that array.
\<close>

definition handleAddPenalty ::
  "Game \<Rightarrow> int \<Rightarrow> string \<Rightarrow> (Player \<times> string) option \<Rightarrow> PenaltyType \<Rightarrow> int \<Rightarrow> Game" where
  "handleAddPenalty g clk now selected penaltyType dur =
     (case selected of
        None \<Rightarrow> g
      | Some (player, teamId) \<Rightarrow>
          (let newPenalty = \<lparr>pn_id = ''penalty_'' @ now, pn_playerId = pl_id player,
                             pn_teamId = teamId, pn_type = penaltyType, duration = dur,
                             startTime = clk, releaseTime = clk - dur\<rparr>
           in g\<lparr>penalties := penalties g @ [newPenalty]\<rparr>))"

text \<open>A run of \<open>recordStat\<close> calls: each call brings its arguments, the clock and the time.\<close>

record StatCall =
  sc_player :: Player
  sc_teamId :: string
  sc_type :: StatType
  sc_assist :: "string option"
  sc_clock :: int
  sc_now :: string

definition recordStat :: "Game \<Rightarrow> StatCall \<Rightarrow> Game" where
  "recordStat g c =
     handleStatAdd g (sc_clock c) (sc_now c) (sc_player c) (sc_teamId c) (sc_type c) (sc_assist c)"

definition recordStats :: "Game \<Rightarrow> StatCall list \<Rightarrow> Game" where
  "recordStats g cs = foldl recordStat g cs"

text \<open>
  The input constraint of \<open>recordStat\<close>: the team passed in is one of the game's two
  teams and the player is on that team's roster.
\<close>

definition onTeam :: "Team \<Rightarrow> string \<Rightarrow> string \<Rightarrow> bool" where
  "onTeam t teamId playerId = (teamId = tm_id t \<and> playerId \<in> set (map pl_id (roster t)))"

definition validCall :: "Game \<Rightarrow> StatCall \<Rightarrow> bool" where
  "validCall g c =
     (onTeam (homeTeam g) (sc_teamId c) (pl_id (sc_player c))
      \<or> onTeam (awayTeam g) (sc_teamId c) (pl_id (sc_player c)))"

text \<open>The Goal stats of the log that are attributed to a player of the given team.\<close>

definition goalsOf :: "Team \<Rightarrow> Stat list \<Rightarrow> Stat list" where
  "goalsOf t ss = filter (\<lambda>s. st_type s = GOAL \<and> onTeam t (st_teamId s) (st_playerId s)) ss"

section \<open>The game clock (GameTracker in src/unnamed/part_001)\<close>

text \<open>
  The state of the component that the clock and the scoreboard use: the \<open>game\<close> prop
  (replaced through \<open>onUpdateGame\<close>), the \<open>clock\<close> and \<open>isClockRunning\<close> states and
  the role of the current user. \<open>summaryFor\<close> is the game that a running
  \<open>handleGenerateSummary\<close> holds while it awaits the summary service; it is there
  exactly while \<open>isGeneratingSummary\<close> is true.
\<close>

record Tracker =
  game :: Game
  clock :: int
  isClockRunning :: bool
  userRole :: Role
  summaryFor :: "Game option"

text \<open>\<open>useState(game.gameClock)\<close> and \<open>useState(false)\<close> when the tracker opens.\<close>

definition openTracker :: "Game \<Rightarrow> Role \<Rightarrow> Tracker" where
  "openTracker g r =
     \<lparr>game = g, clock = gameClock g, isClockRunning = False, userRole = r, summaryFor = None\<rparr>"

text \<open>
  The cues of the clock are calls to outside collaborators: \<open>speak(String(n))\<close>,
  \<open>window.speechSynthesis.cancel()\<close> and \<open>playBuzzer()\<close>. What a collaborator does
  with the call (each checks by itself that the browser has the capability) is outside.
\<close>

datatype Cue = Speak int | CancelSpeech | PlayBuzzer

text \<open>The updater that the interval hands to \<open>setClock\<close>: the new clock and its cues.\<close>

definition tickUpdater :: "int \<Rightarrow> int \<times> Cue list" where
  "tickUpdater prevClock =
     (let newClock = prevClock - 1
      in (newClock,
          if newClock \<le> 10 \<and> newClock > 0 then [Speak newClock]
          else if newClock = 0 then [CancelSpeech, PlayBuzzer]
          else []))"

text \<open>
  The effect on \<open>[clock]\<close>: whenever the clock state changes, the game is updated with
  \<open>{...game, gameClock: clock}\<close>.
\<close>

definition setClock :: "int \<Rightarrow> Tracker \<Rightarrow> Tracker" where
  "setClock c t =
     (if c = clock t then t
      else t\<lparr>clock := c, game := (game t)\<lparr>gameClock := c\<rparr>\<rparr>)"

text \<open>
  One firing of the timer. The interval exists only while \<open>isClockRunning && clock > 0\<close>;
  otherwise nothing fires. A firing changes the clock, so the cleanup of the effect runs
  after the updater: it clears the interval and calls \<open>window.speechSynthesis.cancel()\<close>.
\<close>

definition tick :: "Tracker \<Rightarrow> Tracker \<times> Cue list" where
  "tick t =
     (if isClockRunning t \<and> clock t > 0
      then (let (c, cues) = tickUpdater (clock t) in (setClock c t, cues @ [CancelSpeech]))
      else (t, []))"

text \<open>The timer firing \<open>n\<close> times in a row, with all the cues in order.\<close>

fun ticks :: "nat \<Rightarrow> Tracker \<Rightarrow> Tracker \<times> Cue list" where
  "ticks 0 t = (t, [])"
| "ticks (Suc n) t =
     (let (t1, cues1) = tick t; (t2, cues2) = ticks n t1 in (t2, cues1 @ cues2))"

text \<open>\<open>adjustClock\<close> is \<open>setClock(prev => Math.max(0, prev + seconds))\<close>.\<close>

definition adjustClock :: "int \<Rightarrow> Tracker \<Rightarrow> Tracker" where
  "adjustClock seconds t = setClock (max 0 (clock t + seconds)) t"

text \<open>The Reset Clock button: \<open>setClock(720)\<close>.\<close>

definition resetClock :: "Tracker \<Rightarrow> Tracker" where
  "resetClock t = setClock 720 t"

text \<open>The Start/Pause button: \<open>setIsClockRunning(!isClockRunning)\<close>.\<close>

definition toggleClock :: "Tracker \<Rightarrow> Tracker" where
  "toggleClock t = t\<lparr>isClockRunning := \<not> isClockRunning t\<rparr>"

datatype ClockOp = Tick | Adjust int | Reset | StartPause

fun clockOp :: "Tracker \<Rightarrow> ClockOp \<Rightarrow> Tracker" where
  "clockOp t Tick = fst (tick t)"
| "clockOp t (Adjust seconds) = adjustClock seconds t"
| "clockOp t Reset = resetClock t"
| "clockOp t StartPause = toggleClock t"

definition clockOps :: "Tracker \<Rightarrow> ClockOp list \<Rightarrow> Tracker" where
  "clockOps t ops = foldl clockOp t ops"

section \<open>The scoreboard controls (GameTracker in src/unnamed/part_001)\<close>

text \<open>
  \<open>handleEndGame\<close> pauses the clock and updates the game with
  \<open>{...game, status: 'finished', gameClock: 0}\<close>; the \<open>clock\<close> state stays as it is.
\<close>

definition handleEndGame :: "Tracker \<Rightarrow> Tracker" where
  "handleEndGame t =
     t\<lparr>isClockRunning := False, game := (game t)\<lparr>status := Finished, gameClock := 0\<rparr>\<rparr>"

text \<open>
  \<open>handleGenerateSummary\<close> runs in two parts. The click sets \<open>isGeneratingSummary\<close> and
  calls the summary service with the game of that moment. When the service answers, the
  game is updated with \<open>{...game, aiSummary: summary}\<close>, where \<open>game\<close> is still the game
  of the click, and \<open>isGeneratingSummary\<close> is cleared.
\<close>

definition handleGenerateSummary :: "Tracker \<Rightarrow> Tracker" where
  "handleGenerateSummary t = t\<lparr>summaryFor := Some (game t)\<rparr>"

definition summaryArrives :: "string \<Rightarrow> Tracker \<Rightarrow> Tracker" where
  "summaryArrives summary t =
     (case summaryFor t of
        None \<Rightarrow> t
      | Some g \<Rightarrow> t\<lparr>game := g\<lparr>aiSummary := Some summary\<rparr>, summaryFor := None\<rparr>)"

text \<open>
  The buttons of the scoreboard block and of the finished view: the two score buttons
  per team, Start/Pause, the period buttons, Reset Clock, the two ten-second buttons,
  End Game and the summary button (disabled while a summary is being generated).
\<close>

datatype Control =
  ScoreMinus TeamSide | ScorePlus TeamSide | StartPauseClock | PeriodMinus | PeriodPlus
  | ResetClock | Minus10 | Plus10 | EndGame | GenerateSummary

definition isCoachOrAdmin :: "Tracker \<Rightarrow> bool" where
  "isCoachOrAdmin t = (userRole t = ADMIN \<or> userRole t = COACH)"

text \<open>Which buttons the component renders, by the conditions of its JSX.\<close>

fun rendered :: "Tracker \<Rightarrow> Control \<Rightarrow> bool" where
  "rendered t (ScoreMinus side) = (isCoachOrAdmin t \<and> status (game t) \<noteq> Finished)"
| "rendered t (ScorePlus side) = (isCoachOrAdmin t \<and> status (game t) \<noteq> Finished)"
| "rendered t StartPauseClock = True"
| "rendered t PeriodMinus = True"
| "rendered t PeriodPlus = True"
| "rendered t ResetClock = True"
| "rendered t Minus10 = True"
| "rendered t Plus10 = True"
| "rendered t EndGame = (status (game t) \<noteq> Finished)"
| "rendered t GenerateSummary =
     (status (game t) = Finished \<and> \<not> truthy (aiSummary (game t)) \<and> summaryFor t = None)"

text \<open>What a click on a rendered button does; a button that is not there does nothing.\<close>

fun click :: "Tracker \<Rightarrow> Control \<Rightarrow> Tracker" where
  "click t c =
     (if \<not> rendered t c then t
      else case c of
          ScoreMinus side \<Rightarrow> t\<lparr>game := handleManualScoreChange (game t) side (- 1)\<rparr>
        | ScorePlus side \<Rightarrow> t\<lparr>game := handleManualScoreChange (game t) side 1\<rparr>
        | StartPauseClock \<Rightarrow> toggleClock t
        | PeriodMinus \<Rightarrow>
            t\<lparr>game := (game t)\<lparr>currentPeriod := max 1 (currentPeriod (game t) - 1)\<rparr>\<rparr>
        | PeriodPlus \<Rightarrow> t\<lparr>game := (game t)\<lparr>currentPeriod := currentPeriod (game t) + 1\<rparr>\<rparr>
        | ResetClock \<Rightarrow> resetClock t
        | Minus10 \<Rightarrow> adjustClock (- 10) t
        | Plus10 \<Rightarrow> adjustClock 10 t
        | EndGame \<Rightarrow> handleEndGame t
        | GenerateSummary \<Rightarrow> handleGenerateSummary t)"

section \<open>Aggregation (playerStats and StatsTable in src/unnamed/part_001)\<close>

text \<open>
  \<open>statsByPlayer\<close> is an object from player ids to objects from stat types to counts;
  both are maps here (the ids of the application are texts such as \<open>player_<time>\<close>,
  never a property name that every JavaScript object inherits). \<open>credit\<close> is the pair
  of statements
  \<^verbatim>\<open>if (!m[pid]) m[pid] = {}; m[pid][ty] = (m[pid][ty] || 0) + 1\<close>.
  The assist is credited under \<open>stat.type === GOAL && stat.assistingPlayerId\<close>, a test
  that an id which is missing or the empty text fails.
\<close>

type_synonym StatCounts = "StatType \<rightharpoonup> int"

definition credit :: "string \<Rightarrow> StatType \<Rightarrow> (string \<rightharpoonup> StatCounts) \<Rightarrow> (string \<rightharpoonup> StatCounts)" where
  "credit pid ty m =
     (let row = (case m pid of None \<Rightarrow> Map.empty | Some r \<Rightarrow> r);
          n = (case row ty of None \<Rightarrow> 0 | Some k \<Rightarrow> k)
      in m(pid \<mapsto> row(ty \<mapsto> n + 1)))"

text \<open>The body of \<open>game.stats.forEach\<close>.\<close>

definition addStat :: "(string \<rightharpoonup> StatCounts) \<Rightarrow> Stat \<Rightarrow> (string \<rightharpoonup> StatCounts)" where
  "addStat m s =
     (let m1 = credit (st_playerId s) (st_type s) m
      in if st_type s = GOAL \<and> truthy (assistingPlayerId s)
         then (case assistingPlayerId s of
                 Some a \<Rightarrow> credit a ASSIST m1
               | None \<Rightarrow> m1)
         else m1)"

definition playerStats :: "Game \<Rightarrow> (string \<rightharpoonup> StatCounts)" where
  "playerStats g =
     (let statsByPlayer =
            foldl (\<lambda>m p. m(pl_id p \<mapsto> Map.empty)) Map.empty
              (roster (homeTeam g) @ roster (awayTeam g))
      in foldl addStat statsByPlayer (stats g))"

text \<open>\<open>playerStats[player.id]?.[key] || 0\<close>\<close>

definition statCount :: "(string \<rightharpoonup> StatCounts) \<Rightarrow> string \<Rightarrow> StatType \<Rightarrow> int" where
  "statCount m pid key =
     (case m pid of None \<Rightarrow> 0 | Some row \<Rightarrow> (case row key of None \<Rightarrow> 0 | Some k \<Rightarrow> k))"

definition STAT_DEFINITIONS :: "StatType list" where
  "STAT_DEFINITIONS =
     [GOAL, ASSIST, SHOT, GROUND_BALL, TURNOVER, CAUSED_TURNOVER, SAVE, FACEOFF_WIN,
      FACEOFF_LOSS]"

text \<open>The \<open>teamTotals\<close> of \<open>StatsTable\<close>: for each stat type, a reduce over the roster.\<close>

definition teamTotals :: "Team \<Rightarrow> (string \<rightharpoonup> StatCounts) \<Rightarrow> StatCounts" where
  "teamTotals team ps =
     foldl (\<lambda>acc key. acc(key \<mapsto> foldl (\<lambda>sum p. sum + statCount ps (pl_id p) key) 0 (roster team)))
       Map.empty STAT_DEFINITIONS"

text \<open>\<open>teamTotals[key] || 0\<close>\<close>

definition teamTotal :: "Team \<Rightarrow> (string \<rightharpoonup> StatCounts) \<Rightarrow> StatType \<Rightarrow> int" where
  "teamTotal team ps key = (case teamTotals team ps key of None \<Rightarrow> 0 | Some k \<Rightarrow> k)"

text \<open>
  What the log says: the stats of a type that a player acted in, and the goals a
  player is named on as the assisting player.
\<close>

definition ownStats :: "string \<Rightarrow> StatType \<Rightarrow> Stat list \<Rightarrow> Stat list" where
  "ownStats pid ty ss = filter (\<lambda>s. st_playerId s = pid \<and> st_type s = ty) ss"

definition assistedGoals :: "string \<Rightarrow> Stat list \<Rightarrow> Stat list" where
  "assistedGoals pid ss =
     filter (\<lambda>s. st_type s = GOAL \<and> truthy (assistingPlayerId s) \<and> assistingPlayerId s = Some pid) ss"

section \<open>JavaScript numbers in the face-off drill\<close>








section \<open>Motion detection of the face-off drill (FaceOffTrainer in src/unnamed/part_004)\<close>







datatype DrillState = Idle | Starting | Countdown | SetCue | Measuring | Result | DrillError

datatype SessionState = Setup | Running | SessionFinished









text \<open>What happens to the trainer: animation frames and firings of the session timer.\<close>

datatype TrainerEvent = AnimationFrame "nat list" rat | SessionSecond



section \<open>A small game for the examples\<close>

text \<open>\<open>startGame\<close> of the application updates the game with \<open>{...game, status: 'live'}\<close>.\<close>

definition startGame :: "Game \<Rightarrow> Game" where
  "startGame g = g\<lparr>status := Live\<rparr>"

definition playerA :: Player where
  "playerA = \<lparr>pl_id = ''player_1'', pl_name = ''Ann'', jerseyNumber = ''7'',
     position = ''Attack'', userId = None\<rparr>"

definition playerB :: Player where
  "playerB = \<lparr>pl_id = ''player_2'', pl_name = ''Bea'', jerseyNumber = ''9'',
     position = ''Midfield'', userId = None\<rparr>"

definition playerC :: Player where
  "playerC = \<lparr>pl_id = ''player_3'', pl_name = ''Cy'', jerseyNumber = ''4'',
     position = ''Defense'', userId = None\<rparr>"

definition teamHome :: Team where
  "teamHome = \<lparr>tm_id = ''team_1'', tm_name = ''Hawks'', roster = [playerA, playerB]\<rparr>"

definition teamAway :: Team where
  "teamAway = \<lparr>tm_id = ''team_2'', tm_name = ''Owls'', roster = [playerC]\<rparr>"

definition exampleGame :: Game where
  "exampleGame = newGame ''100'' teamHome teamAway ''2025-03-01''"

text \<open>
  Four calls: a goal of A assisted by B, a shot of C, a goal of C without assist and a
  goal of B without assist.
\<close>

definition exampleCalls :: "StatCall list" where
  "exampleCalls =
     [\<lparr>sc_player = playerA, sc_teamId = ''team_1'', sc_type = GOAL,
        sc_assist = Some ''player_2'', sc_clock = 700, sc_now = ''101''\<rparr>,
      \<lparr>sc_player = playerC, sc_teamId = ''team_2'', sc_type = SHOT,
        sc_assist = None, sc_clock = 650, sc_now = ''102''\<rparr>,
      \<lparr>sc_player = playerC, sc_teamId = ''team_2'', sc_type = GOAL,
        sc_assist = None, sc_clock = 600, sc_now = ''103''\<rparr>,
      \<lparr>sc_player = playerB, sc_teamId = ''team_1'', sc_type = GOAL,
        sc_assist = None, sc_clock = 500, sc_now = ''104''\<rparr>]"

text \<open>The tracker of the started example game with the clock running at a given value.\<close>

definition runningAt :: "int \<Rightarrow> Tracker" where
  "runningAt c = setClock c (toggleClock (openTracker (startGame exampleGame) COACH))"

text \<open>The same tracker after End Game was clicked.\<close>

definition finishedTracker :: Tracker where
  "finishedTracker = click (openTracker (startGame exampleGame) COACH) EndGame"




text \<open>The number of firings of the session timer among the events.\<close>

definition seconds :: "TrainerEvent list \<Rightarrow> int" where
  "seconds evs = int (length (filter (\<lambda>ev. ev = SessionSecond) evs))"

section \<open>A small drill for the examples\<close>










section \<open>Theorems\<close>

subsection \<open>Helper lemmas\<close>

lemmas example_defs = exampleGame_def newGame_def startGame_def teamHome_def teamAway_def
  playerA_def playerB_def playerC_def exampleCalls_def

lemma handleAddGame_fresh:
  "handleAddGame teams hid info sched now = (teams', Some g0) \<Longrightarrow>
     stats g0 = [] \<and> score g0 = \<lparr>home = 0, away = 0\<rparr>"
  by (auto simp add: handleAddGame_def newGame_def Let_def
        split: if_splits option.splits prod.splits)

lemma recordStat_teams:
  "homeTeam (recordStat g c) = homeTeam g \<and> awayTeam (recordStat g c) = awayTeam g"
  by (simp add: recordStat_def handleStatAdd_def Let_def)

lemma recordStats_teams:
  "homeTeam (recordStats g cs) = homeTeam g \<and> awayTeam (recordStats g cs) = awayTeam g"
  by (induction cs rule: rev_induct) (simp_all add: recordStats_def recordStat_teams)

lemma recordStats_snoc: "recordStats g (cs @ [c]) = recordStat (recordStats g cs) c"
  by (simp add: recordStats_def)

lemma recordStat_counts:
  assumes "tm_id (homeTeam g) \<noteq> tm_id (awayTeam g)" and "validCall g c"
    and "home (score g) = int (length (goalsOf (homeTeam g) (stats g)))"
    and "away (score g) = int (length (goalsOf (awayTeam g) (stats g)))"
  shows "home (score (recordStat g c))
           = int (length (goalsOf (homeTeam g) (stats (recordStat g c))))
       \<and> away (score (recordStat g c))
           = int (length (goalsOf (awayTeam g) (stats (recordStat g c))))"
  using assms
  by (auto simp add: recordStat_def handleStatAdd_def Let_def goalsOf_def validCall_def
        onTeam_def)

lemma recordStats_counts:
  assumes "tm_id (homeTeam g) \<noteq> tm_id (awayTeam g)" and "\<forall>c\<in>set cs. validCall g c"
    and "home (score g) = int (length (goalsOf (homeTeam g) (stats g)))"
    and "away (score g) = int (length (goalsOf (awayTeam g) (stats g)))"
  shows "home (score (recordStats g cs))
           = int (length (goalsOf (homeTeam g) (stats (recordStats g cs))))
       \<and> away (score (recordStats g cs))
           = int (length (goalsOf (awayTeam g) (stats (recordStats g cs))))"
  using assms(2)
proof (induction cs rule: rev_induct)
  case Nil
  show ?case using assms(3,4) by (simp add: recordStats_def)
next
  case (snoc c cs)
  let ?g = "recordStats g cs"
  have t: "homeTeam ?g = homeTeam g" "awayTeam ?g = awayTeam g"
    by (simp_all add: recordStats_teams)
  have v: "validCall ?g c" using snoc.prems by (simp add: validCall_def t)
  have ih: "home (score ?g) = int (length (goalsOf (homeTeam ?g) (stats ?g)))"
       "away (score ?g) = int (length (goalsOf (awayTeam ?g) (stats ?g)))"
    using snoc by (simp_all add: t)
  have d: "tm_id (homeTeam ?g) \<noteq> tm_id (awayTeam ?g)" using assms(1) by (simp add: t)
  show ?case using recordStat_counts [OF d v ih] by (simp add: recordStats_snoc t)
qed

lemma example_stats:
  "stats (recordStats exampleGame exampleCalls) =
     [\<lparr>st_id = ''stat_101'', st_playerId = ''player_1'', st_teamId = ''team_1'',
        st_type = GOAL, timestamp = 700, assistingPlayerId = Some ''player_2''\<rparr>,
      \<lparr>st_id = ''stat_102'', st_playerId = ''player_3'', st_teamId = ''team_2'',
        st_type = SHOT, timestamp = 650, assistingPlayerId = None\<rparr>,
      \<lparr>st_id = ''stat_103'', st_playerId = ''player_3'', st_teamId = ''team_2'',
        st_type = GOAL, timestamp = 600, assistingPlayerId = None\<rparr>,
      \<lparr>st_id = ''stat_104'', st_playerId = ''player_2'', st_teamId = ''team_1'',
        st_type = GOAL, timestamp = 500, assistingPlayerId = None\<rparr>]"
  by (simp add: recordStats_def recordStat_def handleStatAdd_def Let_def example_defs)

lemma example_teams:
  "homeTeam (recordStats exampleGame exampleCalls) = teamHome"
  "awayTeam (recordStats exampleGame exampleCalls) = teamAway"
  "homeTeam exampleGame = teamHome" "awayTeam exampleGame = teamAway"
  by (simp_all add: recordStats_teams) (simp_all add: exampleGame_def newGame_def)

subsection \<open>C1: the penalty-box view\<close>

text \<open>
  C1 (as stated): the view contains a penalty exactly when
  \<open>releaseTime < clock \<and> clock \<le> startTime\<close>. The filter has no upper bound: at
  clock 701 the 60-second penalty committed at 700 is in the view although
  \<open>701 \<le> 700\<close> is false.
\<close>

theorem activePenalties_upper_bound_counterexample:
  "\<not> (penalty60 \<in> set (activePenalties [penalty60] 701)
       \<longleftrightarrow> releaseTime penalty60 < 701 \<and> 701 \<le> startTime penalty60)"
  by (simp add: activePenalties_def penalty60_def)

text \<open>
  C1 (amended): for every list of penalties and every clock value, the view contains a
  penalty exactly when it is in the list and its release time is below the clock; the
  60-second penalty committed at 700 is in the view exactly for the clock values above
  640, so it is absent at 640 and present on all of (640, 700] and also at 701.
\<close>

theorem activePenalties_iff:
  "(p \<in> set (activePenalties ps c) \<longleftrightarrow> p \<in> set ps \<and> releaseTime p < c)
   \<and> (penalty60 \<in> set (activePenalties [penalty60] c) \<longleftrightarrow> 640 < c)"
  by (auto simp add: activePenalties_def penalty60_def)

subsection \<open>C2: the score counts the goals\<close>

text \<open>
  C2: start from a game as \<open>handleAddGame\<close> creates it (no stats, score 0-0), whose two
  teams have different ids (the schedule screen refuses a game of a team against
  itself). After any run of \<open>recordStat\<close> calls, each with a player on the roster of the
  team passed in and that team one of the two, \<open>score.home\<close> is the number of Goal stats
  in the log attributed to home-team players and \<open>score.away\<close> the number attributed
  to away-team players. For every game and call: a Goal adds exactly 1 to the home
  counter when the team id passed is the home team's and exactly 1 to the away counter
  otherwise, leaving the other counter; any other type leaves the score as it is.
\<close>

theorem score_counts_goals:
  assumes "handleAddGame teams hid info sched now = (teams', Some g0)"
    and "tm_id (homeTeam g0) \<noteq> tm_id (awayTeam g0)"
    and "\<forall>c\<in>set cs. validCall g0 c"
  shows "home (score (recordStats g0 cs))
           = int (length (goalsOf (homeTeam g0) (stats (recordStats g0 cs))))
       \<and> away (score (recordStats g0 cs))
           = int (length (goalsOf (awayTeam g0) (stats (recordStats g0 cs))))
       \<and> (sc_type c = GOAL \<and> sc_teamId c = tm_id (homeTeam g) \<longrightarrow>
            score (recordStat g c) = \<lparr>home = home (score g) + 1, away = away (score g)\<rparr>)
       \<and> (sc_type c = GOAL \<and> sc_teamId c \<noteq> tm_id (homeTeam g) \<longrightarrow>
            score (recordStat g c) = \<lparr>home = home (score g), away = away (score g) + 1\<rparr>)
       \<and> (sc_type c \<noteq> GOAL \<longrightarrow> score (recordStat g c) = score g)"
proof -
  have f: "stats g0 = []" "score g0 = \<lparr>home = 0, away = 0\<rparr>"
    using handleAddGame_fresh [OF assms(1)] by simp_all
  have a: "home (score g0) = int (length (goalsOf (homeTeam g0) (stats g0)))"
          "away (score g0) = int (length (goalsOf (awayTeam g0) (stats g0)))"
    by (simp_all add: f goalsOf_def)
  have s: "sc_type c = GOAL \<and> sc_teamId c = tm_id (homeTeam g) \<longrightarrow>
            score (recordStat g c) = \<lparr>home = home (score g) + 1, away = away (score g)\<rparr>"
     "sc_type c = GOAL \<and> sc_teamId c \<noteq> tm_id (homeTeam g) \<longrightarrow>
            score (recordStat g c) = \<lparr>home = home (score g), away = away (score g) + 1\<rparr>"
     "sc_type c \<noteq> GOAL \<longrightarrow> score (recordStat g c) = score g"
    by (simp_all add: recordStat_def handleStatAdd_def Let_def)
  show ?thesis using recordStats_counts [OF assms(2,3) a] s by blast
qed

theorem score_counts_goals_witness:
  "handleAddGame [teamHome, teamAway] ''team_1'' (Some ''team_2'', None) ''2025-03-01''
       ''100'' = ([teamHome, teamAway], Some exampleGame)
   \<and> tm_id (homeTeam exampleGame) \<noteq> tm_id (awayTeam exampleGame)
   \<and> list_all (validCall exampleGame) exampleCalls
   \<and> home (score (recordStats exampleGame exampleCalls)) = 2
   \<and> length (goalsOf teamHome (stats (recordStats exampleGame exampleCalls))) = 2
   \<and> away (score (recordStats exampleGame exampleCalls)) = 1
   \<and> length (goalsOf teamAway (stats (recordStats exampleGame exampleCalls))) = 1
   \<and> score (recordStat exampleGame (exampleCalls ! 0)) = \<lparr>home = 1, away = 0\<rparr>
   \<and> score (recordStat exampleGame (exampleCalls ! 2)) = \<lparr>home = 0, away = 1\<rparr>
   \<and> score (recordStat exampleGame (exampleCalls ! 1)) = score exampleGame"
proof -
  have h1: "handleAddGame [teamHome, teamAway] ''team_1'' (Some ''team_2'', None)
      ''2025-03-01'' ''100'' = ([teamHome, teamAway], Some exampleGame)"
    by (simp add: handleAddGame_def truthy_def example_defs)
  have h2: "tm_id (homeTeam exampleGame) \<noteq> tm_id (awayTeam exampleGame)"
    by (simp add: example_defs)
  have h3: "\<forall>c\<in>set exampleCalls. validCall exampleGame c"
    by (simp add: validCall_def onTeam_def example_defs)
  have n: "length (goalsOf teamHome (stats (recordStats exampleGame exampleCalls))) = 2"
    "length (goalsOf teamAway (stats (recordStats exampleGame exampleCalls))) = 1"
    by (simp_all add: example_stats goalsOf_def onTeam_def teamHome_def teamAway_def
          playerA_def playerB_def playerC_def)
  have c0: "sc_type (exampleCalls ! 0) = GOAL"
    "sc_teamId (exampleCalls ! 0) = tm_id (homeTeam exampleGame)"
    by (simp_all add: example_defs)
  have c2: "sc_type (exampleCalls ! 2) = GOAL"
    "sc_teamId (exampleCalls ! 2) \<noteq> tm_id (homeTeam exampleGame)"
    by (simp_all add: example_defs)
  have c1: "sc_type (exampleCalls ! 1) \<noteq> GOAL"
    by (simp add: example_defs)
  have z: "score exampleGame = \<lparr>home = 0, away = 0\<rparr>"
    by (simp add: example_defs)
  note t = score_counts_goals [OF h1 h2 h3]
  show ?thesis
    using t [of "exampleCalls ! 0" exampleGame] t [of "exampleCalls ! 2" exampleGame]
      t [of "exampleCalls ! 1" exampleGame] h1 h2 h3 n c0 c2 c1 z
    by (simp add: example_teams list_all_iff)
qed

subsection \<open>C3: a finished game\<close>

text \<open>
  C3 says that nothing but the summary changes a finished game. The score buttons, End
  Game and the stat panel are rendered only while the status is not \<open>finished\<close>, but
  the period buttons and the clock buttons carry no such condition. On the example game
  after End Game (status \<open>finished\<close>, period 1, game clock 0, clock state still 720) the
  period button is there and raises the period to 2, and the +10s button is there and
  sets the game clock to 730 through the clock effect; the score button and End Game,
  which are guarded, do nothing.
\<close>

theorem finished_game_still_changes:
  "status (game finishedTracker) = Finished
   \<and> rendered finishedTracker PeriodPlus
   \<and> currentPeriod (game finishedTracker) = 1
   \<and> currentPeriod (game (click finishedTracker PeriodPlus)) = 2
   \<and> rendered finishedTracker Plus10
   \<and> gameClock (game finishedTracker) = 0
   \<and> gameClock (game (click finishedTracker Plus10)) = 730
   \<and> status (game (click finishedTracker Plus10)) = Finished
   \<and> click finishedTracker (ScorePlus HomeSide) = finishedTracker
   \<and> click finishedTracker EndGame = finishedTracker"
  by (simp add: finishedTracker_def handleEndGame_def openTracker_def adjustClock_def
        setClock_def example_defs)

subsection \<open>C4: ticking down to the buzzer\<close>

lemma tick_running: "isClockRunning (fst (tick t)) = isClockRunning t"
  by (simp add: tick_def tickUpdater_def setClock_def Let_def)

lemma tick_stopped: "\<not> (isClockRunning t \<and> clock t > 0) \<Longrightarrow> tick t = (t, [])"
  by (auto simp add: tick_def)

lemma tick_clock: "isClockRunning t \<Longrightarrow> clock t > 0 \<Longrightarrow> clock (fst (tick t)) = clock t - 1"
  by (simp add: tick_def tickUpdater_def setClock_def Let_def)

lemma tick_cues:
  "isClockRunning t \<Longrightarrow> clock t > 0 \<Longrightarrow>
     snd (tick t) = (if clock t - 1 \<le> 10 \<and> clock t - 1 > 0 then [Speak (clock t - 1)]
                     else if clock t - 1 = 0 then [CancelSpeech, PlayBuzzer] else [])
                    @ [CancelSpeech]"
  by (simp add: tick_def tickUpdater_def Let_def)

lemma ticks_Suc:
  "ticks (Suc n) t = (fst (ticks n (fst (tick t))), snd (tick t) @ snd (ticks n (fst (tick t))))"
  by (simp add: Let_def split: prod.splits)

lemma ticks_run_out:
  "isClockRunning t \<Longrightarrow> 0 \<le> clock t \<Longrightarrow> nat (clock t) \<le> n \<Longrightarrow>
     clock (fst (ticks n t)) = 0
     \<and> count_list (snd (ticks n t)) PlayBuzzer = (if clock t > 0 then 1 else 0)"
proof (induction n arbitrary: t)
  case 0
  then show ?case by simp
next
  case (Suc n)
  show ?case
  proof (cases "clock t > 0")
    case False
    with Suc.prems have z: "clock t = 0" by simp
    then have "tick t = (t, [])" by (simp add: tick_stopped)
    moreover have "clock (fst (ticks n t)) = 0 \<and> count_list (snd (ticks n t)) PlayBuzzer = 0"
      using Suc.IH [of t] Suc.prems z by simp
    ultimately show ?thesis using z by (simp add: ticks_Suc del: ticks.simps)
  next
    case True
    let ?t1 = "fst (tick t)"
    have r: "isClockRunning ?t1" using Suc.prems by (simp add: tick_running)
    have c: "clock ?t1 = clock t - 1" using Suc.prems True by (simp add: tick_clock)
    have ih: "clock (fst (ticks n ?t1)) = 0
       \<and> count_list (snd (ticks n ?t1)) PlayBuzzer = (if clock ?t1 > 0 then 1 else 0)"
      using Suc.IH [of ?t1] r c Suc.prems True by simp
    have q: "count_list (snd (tick t)) PlayBuzzer = (if clock t - 1 = 0 then 1 else 0)"
      using Suc.prems True by (simp add: tick_cues)
    show ?thesis using ih q c True by (auto simp add: ticks_Suc simp del: ticks.simps)
  qed
qed

lemma runningAt_simps:
  "c \<noteq> 720 \<Longrightarrow> clock (runningAt c) = c" "clock (runningAt 720) = 720"
  "isClockRunning (runningAt c)"
  by (simp_all add: runningAt_def setClock_def toggleClock_def openTracker_def example_defs)

text \<open>
  C4: a firing of the timer while the clock runs and is above 0 takes exactly 1 off the
  clock; it emits a spoken countdown cue exactly when the new value is in [1,10] (and
  the number spoken is the new value); it sounds the buzzer once when the new value is
  0 and not otherwise. At 0 nothing fires any more. From 720 with the clock running,
  720 firings (or more) end at 0 with exactly one buzzer among all the cues.
\<close>

theorem tick_countdown:
  "(isClockRunning t \<and> clock t > 0 \<longrightarrow>
      clock (fst (tick t)) = clock t - 1
      \<and> ((\<exists>n. Speak n \<in> set (snd (tick t))) \<longleftrightarrow> 1 \<le> clock t - 1 \<and> clock t - 1 \<le> 10)
      \<and> (Speak n \<in> set (snd (tick t)) \<longrightarrow> n = clock t - 1)
      \<and> count_list (snd (tick t)) PlayBuzzer = (if clock t - 1 = 0 then 1 else 0))
   \<and> (clock t = 0 \<longrightarrow> tick t = (t, []))
   \<and> (isClockRunning t \<and> clock t = 720 \<and> 720 \<le> k \<longrightarrow>
        clock (fst (ticks k t)) = 0 \<and> count_list (snd (ticks k t)) PlayBuzzer = 1)"
proof -
  have a: "isClockRunning t \<and> clock t > 0 \<longrightarrow>
      clock (fst (tick t)) = clock t - 1
      \<and> ((\<exists>n. Speak n \<in> set (snd (tick t))) \<longleftrightarrow> 1 \<le> clock t - 1 \<and> clock t - 1 \<le> 10)
      \<and> (Speak n \<in> set (snd (tick t)) \<longrightarrow> n = clock t - 1)
      \<and> count_list (snd (tick t)) PlayBuzzer = (if clock t - 1 = 0 then 1 else 0)"
    by (auto simp add: tick_clock tick_cues)
  have b: "clock t = 0 \<longrightarrow> tick t = (t, [])" by (simp add: tick_stopped)
  have c: "isClockRunning t \<and> clock t = 720 \<and> 720 \<le> k \<longrightarrow>
        clock (fst (ticks k t)) = 0 \<and> count_list (snd (ticks k t)) PlayBuzzer = 1"
    using ticks_run_out [of t k] by auto
  show ?thesis using a b c by blast
qed

theorem tick_countdown_witness:
  "isClockRunning (runningAt 720) \<and> clock (runningAt 720) = 720
   \<and> clock (fst (tick (runningAt 720))) = 719
   \<and> snd (tick (runningAt 720)) = [CancelSpeech]
   \<and> clock (fst (ticks 720 (runningAt 720))) = 0
   \<and> count_list (snd (ticks 720 (runningAt 720))) PlayBuzzer = 1
   \<and> isClockRunning (runningAt 10) \<and> clock (runningAt 10) = 10
   \<and> snd (tick (runningAt 10)) = [Speak 9, CancelSpeech]
   \<and> clock (runningAt 1) = 1
   \<and> clock (fst (tick (runningAt 1))) = 0
   \<and> count_list (snd (tick (runningAt 1))) PlayBuzzer = 1
   \<and> clock (runningAt 0) = 0
   \<and> tick (runningAt 0) = (runningAt 0, [])"
proof -
  have s: "snd (tick (runningAt 720)) = [CancelSpeech]"
    "snd (tick (runningAt 10)) = [Speak 9, CancelSpeech]"
    by (simp_all add: tick_cues runningAt_simps)
  show ?thesis
    using tick_countdown [of "runningAt 720" 9 720] tick_countdown [of "runningAt 10" 9 0]
      tick_countdown [of "runningAt 1" 9 0] tick_countdown [of "runningAt 0" 9 0] s
    by (simp add: runningAt_simps)
qed

subsection \<open>C5: the clock never goes below zero\<close>

lemma clockOp_nonneg: "0 \<le> clock t \<Longrightarrow> 0 \<le> clock (clockOp t op)"
  by (cases op)
     (auto simp add: tick_def tickUpdater_def setClock_def adjustClock_def resetClock_def
        toggleClock_def Let_def)

lemma clockOps_nonneg: "0 \<le> clock t \<Longrightarrow> 0 \<le> clock (clockOps t ops)"
  by (induction ops rule: rev_induct) (simp_all add: clockOps_def clockOp_nonneg)

text \<open>
  C5: from a clock that is not negative, after every run of clock operations (the timer
  firing, which does something only while the clock runs and is above 0; an adjustment
  by any whole number of seconds; the reset to 720; start and pause) and at every point
  of the run the clock is not negative. An adjustment by -10 at 5 gives 0.
\<close>

theorem clock_never_negative:
  "(0 \<le> clock t \<longrightarrow> 0 \<le> clock (clockOps t (take k ops)))
   \<and> (clock t = 5 \<longrightarrow> clock (adjustClock (- 10) t) = 0)"
  by (simp add: clockOps_nonneg) (simp add: adjustClock_def setClock_def)

theorem clock_never_negative_witness:
  "0 \<le> clock (runningAt 12)
   \<and> clock (clockOps (runningAt 12) [Tick, Adjust (- 10), Tick, Tick, Adjust (- 7)]) = 0
   \<and> 0 \<le> clock (clockOps (runningAt 12) (take 3 [Tick, Adjust (- 10), Tick, Tick, Adjust (- 7), Reset]))
   \<and> clock (runningAt 5) = 5
   \<and> clock (adjustClock (- 10) (runningAt 5)) = 0"
proof -
  have a: "clock (clockOps (runningAt 12) [Tick, Adjust (- 10), Tick, Tick, Adjust (- 7)]) = 0"
    by (simp add: clockOps_def tick_def tickUpdater_def setClock_def adjustClock_def
          runningAt_def toggleClock_def openTracker_def example_defs Let_def)
  show ?thesis
    using clock_never_negative [of "runningAt 12" 3
        "[Tick, Adjust (- 10), Tick, Tick, Adjust (- 7), Reset]"]
      clock_never_negative [of "runningAt 5" 0 "[]"] a
    by (simp add: runningAt_simps)
qed

subsection \<open>C6: the aggregation\<close>

lemma statCount_credit:
  "statCount (credit p t m) pid ty = statCount m pid ty + (if p = pid \<and> t = ty then 1 else 0)"
  by (simp add: statCount_def credit_def Let_def split: option.splits)

lemma statCount_addStat:
  "statCount (addStat m s) pid ty =
     statCount m pid ty
     + (if st_playerId s = pid \<and> st_type s = ty then 1 else 0)
     + (if ty = ASSIST \<and> st_type s = GOAL \<and> truthy (assistingPlayerId s)
           \<and> assistingPlayerId s = Some pid then 1 else 0)"
proof (cases "assistingPlayerId s")
  case None
  then show ?thesis by (simp add: addStat_def Let_def statCount_credit truthy_def)
next
  case (Some a)
  then show ?thesis by (auto simp add: addStat_def Let_def statCount_credit truthy_def)
qed

lemma statCount_foldl_addStat:
  "statCount (foldl addStat m ss) pid ty =
     statCount m pid ty + int (length (ownStats pid ty ss))
     + (if ty = ASSIST then int (length (assistedGoals pid ss)) else 0)"
proof (induction ss arbitrary: m)
  case Nil
  show ?case by (simp add: ownStats_def assistedGoals_def)
next
  case (Cons s ss)
  show ?case
    by (auto simp add: Cons.IH statCount_addStat ownStats_def assistedGoals_def)
qed

lemma statCount_rows_empty:
  "statCount m pid ty = 0 \<Longrightarrow>
     statCount (foldl (\<lambda>m p. m(pl_id p \<mapsto> Map.empty)) m ps) pid ty = 0"
  by (induction ps arbitrary: m) (simp_all add: statCount_def)

lemma statCount_init:
  "statCount (foldl (\<lambda>m p. m(pl_id p \<mapsto> Map.empty)) Map.empty ps) pid ty = 0"
proof -
  have "statCount Map.empty pid ty = 0" by (simp add: statCount_def)
  then show ?thesis by (rule statCount_rows_empty)
qed

lemma dom_rows_empty:
  "dom (foldl (\<lambda>m p. m(pl_id p \<mapsto> Map.empty)) m ps) = dom m \<union> pl_id ` set ps"
  by (induction ps arbitrary: m) auto

lemma dom_credit: "dom (credit p t m) = insert p (dom m)"
  by (simp add: credit_def Let_def)

lemma dom_addStat: "dom m \<subseteq> dom (addStat m s)"
  by (auto simp add: addStat_def Let_def dom_credit split: option.splits)

lemma dom_foldl_addStat: "dom m \<subseteq> dom (foldl addStat m ss)"
proof (induction ss arbitrary: m)
  case Nil
  show ?case by simp
next
  case (Cons s ss)
  have "dom m \<subseteq> dom (addStat m s)" by (rule dom_addStat)
  also have "\<dots> \<subseteq> dom (foldl addStat (addStat m s) ss)" by (rule Cons.IH)
  finally show ?case by simp
qed

lemma foldl_sum: "foldl (\<lambda>sum p. sum + f p) a ps = a + sum_list (map f ps)"
  for a :: int
  by (induction ps arbitrary: a) simp_all

lemma teamTotal_sum:
  "teamTotal team ps key = sum_list (map (\<lambda>p. statCount ps (pl_id p) key) (roster team))"
  by (cases key) (simp_all add: teamTotal_def teamTotals_def STAT_DEFINITIONS_def foldl_sum)

text \<open>
  C6: for every game the aggregation has an entry for every player of either roster.
  The count it gives a player for a stat type is the number of stats of that type in
  the log in which the player acted, plus, for the type Assist, the number of goals in
  the log that name the player as the assisting player (a name that is there and not
  the empty text, as the code tests it) - whatever goals the player scored. One stat
  adds exactly 1 to the acting player's count of its type, exactly 1 to the Assist
  count of the assisting player of a goal, and nothing to any other count. The total of
  a team for a stat type is the sum of the counts of the players on its roster.
\<close>

theorem playerStats_counts:
  "(\<forall>p \<in> set (roster (homeTeam g) @ roster (awayTeam g)). pl_id p \<in> dom (playerStats g))
   \<and> statCount (playerStats g) pid ty =
       int (length (ownStats pid ty (stats g)))
       + (if ty = ASSIST then int (length (assistedGoals pid (stats g))) else 0)
   \<and> statCount (addStat m s) pid ty =
       statCount m pid ty
       + (if st_playerId s = pid \<and> st_type s = ty then 1 else 0)
       + (if ty = ASSIST \<and> st_type s = GOAL \<and> truthy (assistingPlayerId s)
             \<and> assistingPlayerId s = Some pid then 1 else 0)
   \<and> teamTotal (homeTeam g) (playerStats g) ty =
       sum_list (map (\<lambda>p. statCount (playerStats g) (pl_id p) ty) (roster (homeTeam g)))
   \<and> teamTotal (awayTeam g) (playerStats g) ty =
       sum_list (map (\<lambda>p. statCount (playerStats g) (pl_id p) ty) (roster (awayTeam g)))"
proof -
  let ?init = "foldl (\<lambda>m p. m(pl_id p \<mapsto> Map.empty)) Map.empty
                 (roster (homeTeam g) @ roster (awayTeam g))"
  have d: "\<forall>p \<in> set (roster (homeTeam g) @ roster (awayTeam g)). pl_id p \<in> dom (playerStats g)"
  proof
    fix p assume "p \<in> set (roster (homeTeam g) @ roster (awayTeam g))"
    then have "pl_id p \<in> dom ?init" by (simp only: dom_rows_empty) blast
    then show "pl_id p \<in> dom (playerStats g)"
      using dom_foldl_addStat [of ?init "stats g"] by (auto simp add: playerStats_def Let_def)
  qed
  have z: "statCount ?init pid ty = 0"
    by (rule statCount_init)
  have c: "statCount (playerStats g) pid ty =
       int (length (ownStats pid ty (stats g)))
       + (if ty = ASSIST then int (length (assistedGoals pid (stats g))) else 0)"
  proof -
    have "playerStats g = foldl addStat ?init (stats g)"
      by (simp add: playerStats_def Let_def)
    then show ?thesis by (simp only: statCount_foldl_addStat z)
  qed
  show ?thesis using d c statCount_addStat [of m s pid ty] teamTotal_sum by blast
qed

theorem playerStats_counts_witness:
  "set (roster (homeTeam (recordStats exampleGame exampleCalls))
        @ roster (awayTeam (recordStats exampleGame exampleCalls))) = {playerA, playerB, playerC}
   \<and> ''player_1'' \<in> dom (playerStats (recordStats exampleGame exampleCalls))
   \<and> ''player_2'' \<in> dom (playerStats (recordStats exampleGame exampleCalls))
   \<and> ''player_3'' \<in> dom (playerStats (recordStats exampleGame exampleCalls))
   \<and> statCount (playerStats (recordStats exampleGame exampleCalls)) ''player_1'' GOAL = 1
   \<and> statCount (playerStats (recordStats exampleGame exampleCalls)) ''player_2'' GOAL = 1
   \<and> statCount (playerStats (recordStats exampleGame exampleCalls)) ''player_2'' ASSIST = 1
   \<and> statCount (playerStats (recordStats exampleGame exampleCalls)) ''player_3'' SHOT = 1
   \<and> statCount (playerStats (recordStats exampleGame exampleCalls)) ''player_3'' ASSIST = 0
   \<and> teamTotal (homeTeam (recordStats exampleGame exampleCalls))
        (playerStats (recordStats exampleGame exampleCalls)) GOAL = 2"
proof -
  let ?g = "recordStats exampleGame exampleCalls"
  have r: "set (roster (homeTeam ?g) @ roster (awayTeam ?g)) = {playerA, playerB, playerC}"
    by (simp add: example_teams teamHome_def teamAway_def)
  have i: "pl_id playerA = ''player_1''" "pl_id playerB = ''player_2''"
    "pl_id playerC = ''player_3''"
    by (simp_all add: playerA_def playerB_def playerC_def)
  have n: "length (ownStats ''player_1'' GOAL (stats ?g)) = 1"
    "length (ownStats ''player_2'' GOAL (stats ?g)) = 1"
    "length (ownStats ''player_2'' ASSIST (stats ?g)) = 0"
    "length (assistedGoals ''player_2'' (stats ?g)) = 1"
    "length (ownStats ''player_3'' SHOT (stats ?g)) = 1"
    "length (ownStats ''player_3'' ASSIST (stats ?g)) = 0"
    "length (assistedGoals ''player_3'' (stats ?g)) = 0"
    by (simp_all add: example_stats ownStats_def assistedGoals_def truthy_def)
  have a: "statCount (playerStats ?g) ''player_1'' GOAL = 1"
    "statCount (playerStats ?g) ''player_2'' GOAL = 1"
    using playerStats_counts [of ?g "''player_1''" GOAL]
      playerStats_counts [of ?g "''player_2''" GOAL] n by simp_all
  have b: "statCount (playerStats ?g) ''player_2'' ASSIST = 1"
    "statCount (playerStats ?g) ''player_3'' SHOT = 1"
    "statCount (playerStats ?g) ''player_3'' ASSIST = 0"
    using playerStats_counts [of ?g "''player_2''" ASSIST]
      playerStats_counts [of ?g "''player_3''" SHOT]
      playerStats_counts [of ?g "''player_3''" ASSIST] n by simp_all
  have t: "teamTotal (homeTeam ?g) (playerStats ?g) GOAL = 2"
    using playerStats_counts [of ?g "''player_1''" GOAL] a
    by (simp add: example_teams teamHome_def i)
  have d: "''player_1'' \<in> dom (playerStats ?g)" "''player_2'' \<in> dom (playerStats ?g)"
    "''player_3'' \<in> dom (playerStats ?g)"
    using playerStats_counts [of ?g "''player_1''" GOAL] r i by auto
  show ?thesis using r d a b t by simp
qed

subsection \<open>C7: recording a penalty\<close>

text \<open>
  C7: with a player selected, \<open>handleAddPenalty\<close> appends exactly one penalty to the
  penalty list, whose start time is the current clock and whose release time is the
  clock minus the duration, whatever its sign; nothing else of the game changes. A
  duration of 30 at clock 600 gives start 600 and release 570; a duration of 60 at
  clock 20 gives release -40.
\<close>

theorem handleAddPenalty_appends:
  "penalties (handleAddPenalty g clk now (Some (player, teamId)) ty dur)
     = penalties g @ [\<lparr>pn_id = ''penalty_'' @ now, pn_playerId = pl_id player,
                        pn_teamId = teamId, pn_type = ty, duration = dur,
                        startTime = clk, releaseTime = clk - dur\<rparr>]
   \<and> (handleAddPenalty g clk now (Some (player, teamId)) ty dur)\<lparr>penalties := penalties g\<rparr> = g
   \<and> startTime (last (penalties (handleAddPenalty g 600 now (Some (player, teamId)) SLASHING 30))) = 600
   \<and> releaseTime (last (penalties (handleAddPenalty g 600 now (Some (player, teamId)) SLASHING 30))) = 570
   \<and> releaseTime (last (penalties (handleAddPenalty g 20 now (Some (player, teamId)) SLASHING 60))) = - 40"
  by (simp add: handleAddPenalty_def)

subsection \<open>C8: the measurement of the face-off drill\<close>





























subsection \<open>C9: what recording a stat leaves alone\<close>

text \<open>
  C9: \<open>handleStatAdd\<close> appends exactly one stat to the log: the log is the old log
  followed by the new entry, so it is longer by 1 and the entries recorded before are
  as they were. Penalties, period, game clock, status, both teams with their rosters
  and the remaining fields are unchanged, and for a type other than Goal so is the
  score.
\<close>

theorem handleStatAdd_frame:
  "stats (handleStatAdd g clk now player teamId ty assist)
     = stats g @ [\<lparr>st_id = ''stat_'' @ now, st_playerId = pl_id player, st_teamId = teamId,
                    st_type = ty, timestamp = clk, assistingPlayerId = assist\<rparr>]
   \<and> length (stats (handleStatAdd g clk now player teamId ty assist)) = length (stats g) + 1
   \<and> take (length (stats g)) (stats (handleStatAdd g clk now player teamId ty assist)) = stats g
   \<and> (handleStatAdd g clk now player teamId ty assist)
        \<lparr>stats := stats g, score := score g\<rparr> = g
   \<and> penalties (handleStatAdd g clk now player teamId ty assist) = penalties g
   \<and> currentPeriod (handleStatAdd g clk now player teamId ty assist) = currentPeriod g
   \<and> gameClock (handleStatAdd g clk now player teamId ty assist) = gameClock g
   \<and> status (handleStatAdd g clk now player teamId ty assist) = status g
   \<and> homeTeam (handleStatAdd g clk now player teamId ty assist) = homeTeam g
   \<and> awayTeam (handleStatAdd g clk now player teamId ty assist) = awayTeam g
   \<and> (ty \<noteq> GOAL \<longrightarrow> score (handleStatAdd g clk now player teamId ty assist) = score g)"
  by (simp add: handleStatAdd_def Let_def)

theorem handleStatAdd_frame_witness:
  "SHOT \<noteq> GOAL
   \<and> score (handleStatAdd exampleGame 650 ''102'' playerC ''team_2'' SHOT None) = score exampleGame
   \<and> length (stats (handleStatAdd exampleGame 650 ''102'' playerC ''team_2'' SHOT None)) = 1
   \<and> status (handleStatAdd exampleGame 650 ''102'' playerC ''team_2'' SHOT None) = Scheduled
   \<and> gameClock (handleStatAdd exampleGame 650 ''102'' playerC ''team_2'' SHOT None) = 720"
  using handleStatAdd_frame [of exampleGame 650 "''102''" playerC "''team_2''" SHOT None]
  by (simp add: example_defs)

subsection \<open>C10: manual score changes stop at zero\<close>

text \<open>
  C10: on a game whose two scores are not negative, \<open>handleManualScoreChange\<close> for
  either team and a change of +1 or -1 (indeed any whole number) gives scores that are
  not negative; taking 1 off a score of 0 leaves it 0. The other team's score and every
  other field of the game are unchanged.
\<close>

theorem handleManualScoreChange_clamps:
  "(0 \<le> home (score g) \<and> 0 \<le> away (score g) \<longrightarrow>
      0 \<le> home (score (handleManualScoreChange g side delta))
      \<and> 0 \<le> away (score (handleManualScoreChange g side delta)))
   \<and> (home (score g) = 0 \<longrightarrow> home (score (handleManualScoreChange g HomeSide (- 1))) = 0)
   \<and> (away (score g) = 0 \<longrightarrow> away (score (handleManualScoreChange g AwaySide (- 1))) = 0)
   \<and> home (score (handleManualScoreChange g HomeSide delta)) = max 0 (home (score g) + delta)
   \<and> away (score (handleManualScoreChange g AwaySide delta)) = max 0 (away (score g) + delta)
   \<and> away (score (handleManualScoreChange g HomeSide delta)) = away (score g)
   \<and> home (score (handleManualScoreChange g AwaySide delta)) = home (score g)
   \<and> (handleManualScoreChange g side delta)\<lparr>score := score g\<rparr> = g"
  by (cases side) (simp_all add: handleManualScoreChange_def)

theorem handleManualScoreChange_clamps_witness:
  "0 \<le> home (score exampleGame) \<and> 0 \<le> away (score exampleGame)
   \<and> home (score exampleGame) = 0 \<and> away (score exampleGame) = 0
   \<and> score (handleManualScoreChange exampleGame HomeSide (- 1)) = \<lparr>home = 0, away = 0\<rparr>
   \<and> score (handleManualScoreChange exampleGame AwaySide (- 1)) = \<lparr>home = 0, away = 0\<rparr>
   \<and> score (handleManualScoreChange exampleGame HomeSide 1) = \<lparr>home = 1, away = 0\<rparr>"
proof -
  have e: "\<And>s. (home s = 0 \<and> away s = 0) = (s = \<lparr>home = 0, away = 0\<rparr>)"
    "\<And>s. (home s = 1 \<and> away s = 0) = (s = \<lparr>home = 1, away = 0\<rparr>)"
    by auto
  have z: "score exampleGame = \<lparr>home = 0, away = 0\<rparr>" by (simp add: example_defs)
  show ?thesis
    using handleManualScoreChange_clamps [of exampleGame HomeSide "- 1"]
      handleManualScoreChange_clamps [of exampleGame AwaySide "- 1"]
      handleManualScoreChange_clamps [of exampleGame HomeSide 1]
    by (simp add: z e [symmetric])
qed

end
